theory Spec2Isabelle
  imports Main
begin

section \<open>The world the module runs in\<close>

text \<open>
  \<open>settings.py\<close> reads the process environment, the working and home directories, the
  platform name and the file system, and it writes to the logger. All of that is made
  explicit: a \<open>world\<close> record holds what the module reads, and every function returns
  the log lines it emitted together with its result.
\<close>

datatype log_entry = LogError string | LogInfo string

text \<open>
  What a path names. \<open>Path.exists()\<close> is true for a regular file and for a directory,
  false for a missing path, and passes a permission error on.
\<close>

datatype entry = Missing | RegularFile | Directory | AccessDenied

text \<open>
  A pydantic \<open>ValidationError\<close> carries one line per offending input: its location and
  the message of the \<open>ValueError\<close> the validator raised.
\<close>

datatype error = OSError string | ValidationError "(string \<times> string) list"

text \<open>
  Paths are the strings \<open>str(path)\<close> gives. How pathlib joins and normalises them depends on
  the platform, so \<open>pathjoin\<close> (the operator \<open>/\<close>) and \<open>mkpath\<close> (the constructor
  \<open>Path(s)\<close>) are taken from the world. \<open>environ\<close> is \<open>os.environ\<close> in iteration order.
  \<open>read_env_file p\<close> is what the dotenv source of pydantic-settings reads at \<open>p\<close>:
  \<open>None\<close> when \<open>p\<close> is not a regular file (the source skips it), otherwise the
  \<open>key=value\<close> pairs of the file in order.
\<close>

record world =
  os_name :: string
  cwd :: string
  home :: string
  environ :: "(string \<times> string) list"
  pathjoin :: "string \<Rightarrow> string \<Rightarrow> string"
  mkpath :: "string \<Rightarrow> string"
  stat :: "string \<Rightarrow> entry"
  read_env_file :: "string \<Rightarrow> (string \<times> string) list option"

section \<open>Python helpers\<close>

definition startswith :: "string \<Rightarrow> string \<Rightarrow> bool" where
  "startswith s p = (take (length p) s = p)"

text \<open>\<open>os.environ.get(key, default)\<close>\<close>

definition environ_get :: "(string \<times> string) list \<Rightarrow> string \<Rightarrow> string \<Rightarrow> string" where
  "environ_get env key dflt = (case map_of env key of None \<Rightarrow> dflt | Some v \<Rightarrow> v)"

text \<open>\<open>key in os.environ\<close>\<close>

definition environ_mem :: "string \<Rightarrow> (string \<times> string) list \<Rightarrow> bool" where
  "environ_mem key env = (key \<in> set (map fst env))"

text \<open>\<open>str.lower()\<close> on ASCII: the letters A to Z move to a to z, every other character stays.\<close>

definition lower_char :: "char \<Rightarrow> char" where
  "lower_char c =
     (case map_of (zip ''ABCDEFGHIJKLMNOPQRSTUVWXYZ'' ''abcdefghijklmnopqrstuvwxyz'') c of
        None \<Rightarrow> c
      | Some l \<Rightarrow> l)"

definition lower :: "string \<Rightarrow> string" where
  "lower s = map lower_char s"

text \<open>\<open>Path.exists()\<close>\<close>

definition path_exists :: "world \<Rightarrow> string \<Rightarrow> error + bool" where
  "path_exists w p =
     (case stat w p of
        Missing \<Rightarrow> Inr False
      | RegularFile \<Rightarrow> Inr True
      | Directory \<Rightarrow> Inr True
      | AccessDenied \<Rightarrow> Inl (OSError p))"

section \<open>The config file locator\<close>

definition deprecated_message :: "string \<Rightarrow> string" where
  "deprecated_message global_config =
     ''DEPRECATED: '' @ global_config @
     '' is deprecated and will be removed in a future release. '' @
     ''Use your IDE's native .json config file to configure access to MCP.''"

text \<open>The legacy per-user path: under \<open>APPDATA\<close> on Windows, under the home directory
  elsewhere.\<close>

definition global_config :: "world \<Rightarrow> string" where
  "global_config w =
     (if os_name w = ''nt''
      then pathjoin w
             (pathjoin w (mkpath w (environ_get (environ w) ''APPDATA'' '''')) ''supabase-mcp'')
             ''.env''
      else pathjoin w (pathjoin w (pathjoin w (home w) ''.config'') ''supabase-mcp'') ''.env'')"

definition find_config_file :: "world \<Rightarrow> string \<Rightarrow> (error + string option) \<times> log_entry list" where
  "find_config_file w env_file =
     (let cwd_config = pathjoin w (cwd w) env_file in
      case path_exists w cwd_config of
        Inl e \<Rightarrow> (Inl e, [])
      | Inr found \<Rightarrow>
          if found then (Inr (Some cwd_config), [])
          else
            (case path_exists w (global_config w) of
               Inl e \<Rightarrow> (Inl e, [])
             | Inr found_global \<Rightarrow>
                 if found_global
                 then (Inr (Some (global_config w)),
                       [LogError (deprecated_message (global_config w))])
                 else (Inr None, [])))"

section \<open>The settings schema\<close>

record Settings =
  supabase_project_ref :: string
  supabase_db_password :: "string option"
  supabase_region :: string
  supabase_access_token :: "string option"
  supabase_service_role_key :: "string option"
  supabase_api_url :: string
  query_api_key :: string
  query_api_url :: string

text \<open>The fields in declaration order, each with its alias when it declares one.\<close>

definition model_fields :: "(string \<times> string option) list" where
  "model_fields =
     [(''supabase_project_ref'', Some ''SUPABASE_PROJECT_REF''),
      (''supabase_db_password'', Some ''SUPABASE_DB_PASSWORD''),
      (''supabase_region'', Some ''SUPABASE_REGION''),
      (''supabase_access_token'', Some ''SUPABASE_ACCESS_TOKEN''),
      (''supabase_service_role_key'', Some ''SUPABASE_SERVICE_ROLE_KEY''),
      (''supabase_api_url'', None),
      (''query_api_key'', Some ''QUERY_API_KEY''),
      (''query_api_url'', Some ''QUERY_API_URL'')]"

subsection \<open>Field validators\<close>

definition validate_region :: "string \<Rightarrow> string + string" where
  "validate_region v = Inr v"

definition validate_project_ref :: "string \<Rightarrow> string + string" where
  "validate_project_ref v =
     (if v = [] then Inl ''SUPABASE_PROJECT_REF cannot be empty.'' else Inr v)"

text \<open>
  \<open>info.data\<close> holds the fields validated so far, under their field names; a field whose
  validation failed is not in it. \<open>not v\<close> holds for \<open>None\<close> and for the empty string, and
  \<open>v or "postgres"\<close> replaces exactly those two.
\<close>

definition validate_db_password ::
  "string option \<Rightarrow> (string \<rightharpoonup> string) \<Rightarrow> (string + string) \<times> log_entry list" where
  "validate_db_password v info_data =
     (let project_ref = (case info_data ''supabase_project_ref'' of None \<Rightarrow> '''' | Some r \<Rightarrow> r);
          missing = (Inl ''Database password is required for remote Supabase projects.'',
                     [LogError ''SUPABASE_DB_PASSWORD is required when connecting to a remote instance''])
      in
      if startswith project_ref ''127.0.0.1''
      then (Inr (case v of None \<Rightarrow> ''postgres'' | Some p \<Rightarrow> if p = [] then ''postgres'' else p), [])
      else (case v of
              None \<Rightarrow> missing
            | Some p \<Rightarrow> if p = [] then missing else (Inr p, [])))"

subsection \<open>Loading the sources\<close>

text \<open>
  \<open>Settings\<close> derives from \<open>BaseSettings\<close> of pydantic-settings, whose construction
  collects one dictionary per source and validates the merged dictionary. With the
  configuration the class inherits (\<open>case_sensitive = False\<close>, \<open>env_prefix = ""\<close>,
  \<open>validate_default = True\<close>, \<open>extra = "forbid"\<close>):
  \<^item> a source reads a field under its alias, or under the field's own name when it declares
    none, and compares names in lower case;
  \<^item> the sources are the process environment and then the dotenv file; the dictionaries are
    merged so that an entry of the environment stays over one of the file;
  \<^item> the dotenv source also passes on every key of the file with a non-empty value that
    names no field, and the model rejects such an extra input;
  \<^item> a field that no source supplies takes its declared default, and the field's validator
    runs on the default as well.
  Every field is a string, so a value read from a source is always of the right type.
\<close>

definition field_key :: "string \<times> string option \<Rightarrow> string" where
  "field_key f = (case snd f of None \<Rightarrow> fst f | Some a \<Rightarrow> a)"

definition field_env_name :: "string \<times> string option \<Rightarrow> string" where
  "field_env_name f = lower (field_key f)"

text \<open>The dictionary \<open>{k.lower(): v}\<close> over the items of a source: a later item replaces an
  earlier one of the same lower-case name.\<close>

definition parse_env_vars :: "(string \<times> string) list \<Rightarrow> (string \<rightharpoonup> string)" where
  "parse_env_vars vars = map_of (rev (map (\<lambda>(k, v). (lower k, v)) vars))"

text \<open>One source: for each field in turn, the value found under its name, stored under its key.\<close>

definition source_data :: "(string \<rightharpoonup> string) \<Rightarrow> (string \<times> string) list" where
  "source_data env_vars =
     List.map_filter (\<lambda>f. map_option (Pair (field_key f)) (env_vars (field_env_name f)))
       model_fields"

definition env_settings :: "world \<Rightarrow> (string \<times> string) list" where
  "env_settings w = source_data (parse_env_vars (environ w))"

definition dotenv_vars :: "world \<Rightarrow> string option \<Rightarrow> (string \<times> string) list" where
  "dotenv_vars w env_file =
     (case env_file of
        None \<Rightarrow> []
      | Some p \<Rightarrow> (case read_env_file w p of None \<Rightarrow> [] | Some kvs \<Rightarrow> kvs))"

text \<open>The keys of the file that name no field, each with its value; an empty value is
  dropped.\<close>

definition dotenv_extra :: "world \<Rightarrow> string option \<Rightarrow> (string \<times> string) list" where
  "dotenv_extra w env_file =
     (let vars = dotenv_vars w env_file;
          env_vars = parse_env_vars vars;
          data = source_data env_vars
      in List.map_filter
           (\<lambda>env_name.
              case env_vars env_name of
                None \<Rightarrow> None
              | Some env_value \<Rightarrow>
                  if env_value = [] \<or> env_name \<in> set (map fst data)
                     \<or> env_name \<in> set (map field_env_name model_fields)
                  then None else Some (env_name, env_value))
           (remdups (map (lower \<circ> fst) vars)))"

definition dotenv_settings :: "world \<Rightarrow> string option \<Rightarrow> (string \<times> string) list" where
  "dotenv_settings w env_file =
     source_data (parse_env_vars (dotenv_vars w env_file)) @ dotenv_extra w env_file"

text \<open>The merged dictionary as an association list: a lookup takes the first entry of a key,
  so the entries of the environment come first.\<close>

definition build_values :: "world \<Rightarrow> string option \<Rightarrow> (string \<times> string) list" where
  "build_values w env_file = env_settings w @ dotenv_settings w env_file"

definition field_errors :: "string \<Rightarrow> string + 'a \<Rightarrow> (string \<times> string) list" where
  "field_errors loc r = (case r of Inl msg \<Rightarrow> [(loc, msg)] | Inr _ \<Rightarrow> [])"

text \<open>
  The nested class \<open>SettingsWithConfig\<close> and its construction. Fields are validated in
  declaration order, every failure is collected, and one \<open>ValidationError\<close> is raised at the
  end if there is any.
\<close>

definition SettingsWithConfig ::
  "world \<Rightarrow> string option \<Rightarrow> (error + Settings) \<times> log_entry list" where
  "SettingsWithConfig w config_file =
     (let values = build_values w config_file;
          input = map_of values;
          str_field = (\<lambda>key dflt. case input key of None \<Rightarrow> dflt | Some v \<Rightarrow> v);
          project_ref = validate_project_ref (str_field ''SUPABASE_PROJECT_REF'' ''127.0.0.1:54322'');
          info_data = (case project_ref of
                         Inl _ \<Rightarrow> Map.empty
                       | Inr r \<Rightarrow> [''supabase_project_ref'' \<mapsto> r]);
          (db_password, logged) = validate_db_password (input ''SUPABASE_DB_PASSWORD'') info_data;
          region = validate_region (str_field ''SUPABASE_REGION'' ''us-east-1'');
          extra = filter (\<lambda>k. k \<notin> set (map field_key model_fields)) (map fst values);
          errors = field_errors ''SUPABASE_PROJECT_REF'' project_ref
                   @ field_errors ''SUPABASE_DB_PASSWORD'' db_password
                   @ field_errors ''SUPABASE_REGION'' region
                   @ map (\<lambda>k. (k, ''Extra inputs are not permitted'')) extra
      in case project_ref of
           Inl _ \<Rightarrow> (Inl (ValidationError errors), logged)
         | Inr r \<Rightarrow>
            (case db_password of
               Inl _ \<Rightarrow> (Inl (ValidationError errors), logged)
             | Inr p \<Rightarrow>
                (case region of
                   Inl _ \<Rightarrow> (Inl (ValidationError errors), logged)
                 | Inr g \<Rightarrow>
                    if extra \<noteq> [] then (Inl (ValidationError errors), logged)
                    else (Inr \<lparr>supabase_project_ref = r,
                               supabase_db_password = Some p,
                               supabase_region = g,
                               supabase_access_token = input ''SUPABASE_ACCESS_TOKEN'',
                               supabase_service_role_key = input ''SUPABASE_SERVICE_ROLE_KEY'',
                               supabase_api_url = str_field ''supabase_api_url'' ''https://api.supabase.com'',
                               query_api_key = str_field ''QUERY_API_KEY'' ''test-key'',
                               query_api_url = str_field ''QUERY_API_URL'' ''https://api.thequery.dev/v1''\<rparr>,
                          logged))))"

definition with_config :: "world \<Rightarrow> string option \<Rightarrow> (error + Settings) \<times> log_entry list" where
  "with_config w config_file =
     (case SettingsWithConfig w config_file of
        (Inl e, logged) \<Rightarrow> (Inl e, logged)
      | (Inr inst, logged) \<Rightarrow>
          (let env_vars_present =
                 list_ex (\<lambda>var. environ_mem var (environ w))
                   [''SUPABASE_PROJECT_REF'', ''SUPABASE_DB_PASSWORD''];
               file = (case config_file of None \<Rightarrow> [] | Some p \<Rightarrow> p)
           in (Inr inst,
               logged @
               [LogInfo
                  (if env_vars_present \<and> file \<noteq> []
                   then ''Using environment variables over config file: '' @ file
                   else if env_vars_present
                   then ''Using environment variables for configuration''
                   else if file \<noteq> []
                   then ''Using settings from config file: '' @ file
                   else ''Using default settings (local development)'')])))"

text \<open>The module's last line: \<open>settings = Settings.with_config(find_config_file())\<close>.\<close>

definition settings :: "world \<Rightarrow> (error + Settings) \<times> log_entry list" where
  "settings w =
     (case find_config_file w ''.env'' of
        (Inl e, logged) \<Rightarrow> (Inl e, logged)
      | (Inr config_file, logged) \<Rightarrow>
          (case with_config w config_file of (r, logged') \<Rightarrow> (r, logged @ logged')))"

section \<open>The precedence rule of the specification\<close>

text \<open>
  The specification's rule for one field: the value of the environment if there is one,
  otherwise the value of the config file if there is one, otherwise the default.
\<close>

definition precedence :: "'a option \<Rightarrow> 'a option \<Rightarrow> 'a \<Rightarrow> 'a" where
  "precedence env_value file_value dflt =
     (case env_value of
        Some v \<Rightarrow> v
      | None \<Rightarrow> (case file_value of Some v \<Rightarrow> v | None \<Rightarrow> dflt))"

text \<open>What the environment and the config file give for a variable, names compared in
  lower case as the sources do.\<close>

definition env_var :: "world \<Rightarrow> string \<Rightarrow> string option" where
  "env_var w name = parse_env_vars (environ w) (lower name)"

definition file_var :: "world \<Rightarrow> string option \<Rightarrow> string \<Rightarrow> string option" where
  "file_var w config_file name = parse_env_vars (dotenv_vars w config_file) (lower name)"

text \<open>What the sources together supply for a variable, if any of them does: the rule above
  without a default.\<close>

definition supplied :: "world \<Rightarrow> string option \<Rightarrow> string \<Rightarrow> string option" where
  "supplied w config_file name =
     precedence (map_option Some (env_var w name)) (map_option Some (file_var w config_file name))
       None"

section \<open>A sample world\<close>

text \<open>A POSIX process in \<open>/srv/app\<close>, used to run the functions on concrete inputs: the
  environment, the file system and the dotenv files are its parameters.\<close>

definition sample_world ::
  "(string \<times> string) list \<Rightarrow> (string \<Rightarrow> entry) \<Rightarrow> (string \<Rightarrow> (string \<times> string) list option) \<Rightarrow> world" where
  "sample_world env fs files =
     \<lparr>os_name = ''posix'', cwd = ''/srv/app'', home = ''/home/dev'', environ = env,
      pathjoin = (\<lambda>a b. a @ ''/'' @ b), mkpath = (\<lambda>s. s), stat = fs, read_env_file = files\<rparr>"

section \<open>Lookups in the merged sources\<close>

lemma lower_keys:
  "lower ''SUPABASE_PROJECT_REF'' = ''supabase_project_ref''"
  "lower ''SUPABASE_DB_PASSWORD'' = ''supabase_db_password''"
  "lower ''SUPABASE_REGION'' = ''supabase_region''"
  "lower ''SUPABASE_ACCESS_TOKEN'' = ''supabase_access_token''"
  "lower ''SUPABASE_SERVICE_ROLE_KEY'' = ''supabase_service_role_key''"
  "lower ''supabase_api_url'' = ''supabase_api_url''"
  "lower ''QUERY_API_KEY'' = ''query_api_key''"
  "lower ''QUERY_API_URL'' = ''query_api_url''"
  by (simp_all add: lower_def lower_char_def)

lemma field_keys:
  "map field_key model_fields =
     [''SUPABASE_PROJECT_REF'', ''SUPABASE_DB_PASSWORD'', ''SUPABASE_REGION'',
      ''SUPABASE_ACCESS_TOKEN'', ''SUPABASE_SERVICE_ROLE_KEY'', ''supabase_api_url'',
      ''QUERY_API_KEY'', ''QUERY_API_URL'']"
  by (simp add: model_fields_def field_key_def)

lemma field_env_names:
  "map field_env_name model_fields = map lower (map field_key model_fields)"
  by (simp add: field_env_name_def)

lemma lower_char_idem: "lower_char (lower_char c) = lower_char c"
  by (auto simp: lower_char_def)

lemma lower_idem: "lower (lower s) = lower s"
  by (simp add: lower_def lower_char_idem)

text \<open>A dictionary filled field by field holds, under the key of a field, what the field's
  own entry computed.\<close>

lemma map_of_map_filter_keys:
  "distinct (map key fs) \<Longrightarrow>
   map_of (List.map_filter (\<lambda>f. map_option (Pair (key f)) (g f)) fs) k =
     (case find (\<lambda>f. key f = k) fs of None \<Rightarrow> None | Some f \<Rightarrow> g f)"
proof (induction fs)
  case Nil
  then show ?case by simp
next
  case (Cons f fs)
  show ?case
  proof (cases "key f = k")
    case True
    with Cons.prems have "k \<notin> key ` set fs" by auto
    then have "find (\<lambda>f. key f = k) fs = None" by (auto simp: find_None_iff)
    with Cons have "map_of (List.map_filter (\<lambda>f. map_option (Pair (key f)) (g f)) fs) k = None"
      by simp
    with True show ?thesis by (cases "g f") simp_all
  next
    case False
    with Cons show ?thesis by (cases "g f") simp_all
  qed
qed

lemma map_of_source_data:
  "k \<in> field_key ` set model_fields \<Longrightarrow> map_of (source_data ev) k = ev (lower k)"
  unfolding source_data_def
  by (subst map_of_map_filter_keys)
     (auto simp: model_fields_def field_key_def field_env_name_def)

lemma fst_source_data: "fst ` set (source_data ev) \<subseteq> field_key ` set model_fields"
  by (auto simp: source_data_def List.map_filter_def)

text \<open>The keys the dotenv source passes on as extra are lower-case names of no field, so they
  never hide a field's entry.\<close>

lemma fst_dotenv_extra:
  "k \<in> fst ` set (dotenv_extra w cf) \<Longrightarrow> k \<notin> field_key ` set model_fields"
proof
  assume k: "k \<in> fst ` set (dotenv_extra w cf)" and fk: "k \<in> field_key ` set model_fields"
  from k have low: "lower k = k" and nf: "k \<notin> field_env_name ` set model_fields"
    by (auto simp: dotenv_extra_def Let_def List.map_filter_def lower_idem
             split: option.splits if_splits)
  from fk have "lower k \<in> field_env_name ` set model_fields"
    by (auto simp: field_env_name_def)
  with low nf show False by simp
qed

lemma map_of_dotenv_extra:
  "k \<in> field_key ` set model_fields \<Longrightarrow> map_of (dotenv_extra w cf) k = None"
  using fst_dotenv_extra [of k w cf] by (auto simp: map_of_eq_None_iff)

lemma map_of_build_values:
  "k \<in> field_key ` set model_fields \<Longrightarrow>
   map_of (build_values w cf) k =
     (case env_var w k of Some v \<Rightarrow> Some v | None \<Rightarrow> file_var w cf k)"
  by (simp add: build_values_def env_settings_def dotenv_settings_def map_of_append
        map_add_def map_of_source_data map_of_dotenv_extra env_var_def file_var_def
      split: option.splits)

lemma extra_build_values:
  "filter (\<lambda>k. k \<notin> field_key ` set model_fields) (map fst (build_values w cf)) =
     map fst (dotenv_extra w cf)"
proof -
  have a: "filter (\<lambda>k. k \<notin> field_key ` set model_fields) (map fst (source_data ev)) = []" for ev
    using fst_source_data [of ev] by (auto simp: filter_empty_conv)
  have b: "filter (\<lambda>k. k \<notin> field_key ` set model_fields) (map fst (dotenv_extra w cf)) =
      map fst (dotenv_extra w cf)"
    using fst_dotenv_extra [of _ w cf] by (auto simp: filter_id_conv)
  show ?thesis
    by (simp add: build_values_def env_settings_def dotenv_settings_def a b)
qed

lemma field_key_mem:
  "''SUPABASE_PROJECT_REF'' \<in> field_key ` set model_fields"
  "''SUPABASE_DB_PASSWORD'' \<in> field_key ` set model_fields"
  "''SUPABASE_REGION'' \<in> field_key ` set model_fields"
  "''SUPABASE_ACCESS_TOKEN'' \<in> field_key ` set model_fields"
  "''SUPABASE_SERVICE_ROLE_KEY'' \<in> field_key ` set model_fields"
  "''supabase_api_url'' \<in> field_key ` set model_fields"
  "''QUERY_API_KEY'' \<in> field_key ` set model_fields"
  "''QUERY_API_URL'' \<in> field_key ` set model_fields"
  by (simp_all add: model_fields_def field_key_def)

lemma supplied_alt:
  "supplied w cf name = (case env_var w name of Some v \<Rightarrow> Some v | None \<Rightarrow> file_var w cf name)"
  by (simp add: supplied_def precedence_def split: option.splits)

lemma precedence_supplied:
  "precedence (env_var w name) (file_var w cf name) d =
     (case supplied w cf name of None \<Rightarrow> d | Some v \<Rightarrow> v)"
  by (simp add: supplied_def precedence_def split: option.splits)

text \<open>The construction, with every lookup in the merged dictionary replaced by what the two
  sources hold.\<close>

lemma SettingsWithConfig_eq:
  "SettingsWithConfig w cf =
     (let project_ref = validate_project_ref
            (precedence (env_var w ''SUPABASE_PROJECT_REF'')
               (file_var w cf ''SUPABASE_PROJECT_REF'') ''127.0.0.1:54322'');
          info_data = (case project_ref of
                         Inl _ \<Rightarrow> Map.empty
                       | Inr r \<Rightarrow> [''supabase_project_ref'' \<mapsto> r]);
          (db_password, logged) =
            validate_db_password (supplied w cf ''SUPABASE_DB_PASSWORD'') info_data;
          extra = map fst (dotenv_extra w cf);
          errors = field_errors ''SUPABASE_PROJECT_REF'' project_ref
                   @ field_errors ''SUPABASE_DB_PASSWORD'' db_password
                   @ map (\<lambda>k. (k, ''Extra inputs are not permitted'')) extra
      in case project_ref of
           Inl _ \<Rightarrow> (Inl (ValidationError errors), logged)
         | Inr r \<Rightarrow>
            (case db_password of
               Inl _ \<Rightarrow> (Inl (ValidationError errors), logged)
             | Inr p \<Rightarrow>
                 if extra \<noteq> [] then (Inl (ValidationError errors), logged)
                 else (Inr \<lparr>supabase_project_ref = r,
                            supabase_db_password = Some p,
                            supabase_region =
                              precedence (env_var w ''SUPABASE_REGION'')
                                (file_var w cf ''SUPABASE_REGION'') ''us-east-1'',
                            supabase_access_token = supplied w cf ''SUPABASE_ACCESS_TOKEN'',
                            supabase_service_role_key =
                              supplied w cf ''SUPABASE_SERVICE_ROLE_KEY'',
                            supabase_api_url =
                              precedence (env_var w ''supabase_api_url'')
                                (file_var w cf ''supabase_api_url'') ''https://api.supabase.com'',
                            query_api_key =
                              precedence (env_var w ''QUERY_API_KEY'')
                                (file_var w cf ''QUERY_API_KEY'') ''test-key'',
                            query_api_url =
                              precedence (env_var w ''QUERY_API_URL'')
                                (file_var w cf ''QUERY_API_URL'')
                                ''https://api.thequery.dev/v1''\<rparr>,
                       logged)))"
  unfolding SettingsWithConfig_def Let_def set_map extra_build_values
  by (simp add: map_of_build_values field_key_mem precedence_supplied supplied_alt
        validate_region_def field_errors_def
      split: sum.splits prod.splits option.splits)

section \<open>What a successful resolution returns\<close>

text \<open>A resolution that returns settings has logged nothing before its closing line, found
  no unknown key in the file, and filled every field as below.\<close>

lemma validate_project_ref_Inr: "validate_project_ref v = Inr r \<Longrightarrow> r = v \<and> v \<noteq> []"
  by (simp add: validate_project_ref_def split: if_splits)

lemma validate_db_password_Inr:
  "validate_db_password v d = (Inr p, lg) \<Longrightarrow>
   lg = [] \<and> p = (case v of None \<Rightarrow> ''postgres'' | Some q \<Rightarrow> if q = [] then ''postgres'' else q)"
  by (auto simp: validate_db_password_def Let_def split: if_splits option.splits)

lemma SettingsWithConfig_Inr:
  assumes "SettingsWithConfig w cf = (Inr s, lg)"
  shows "lg = []"
    and "dotenv_extra w cf = []"
    and "s = \<lparr>supabase_project_ref =
                 precedence (env_var w ''SUPABASE_PROJECT_REF'')
                   (file_var w cf ''SUPABASE_PROJECT_REF'') ''127.0.0.1:54322'',
               supabase_db_password =
                 Some (case supplied w cf ''SUPABASE_DB_PASSWORD'' of
                         None \<Rightarrow> ''postgres''
                       | Some q \<Rightarrow> if q = [] then ''postgres'' else q),
               supabase_region =
                 precedence (env_var w ''SUPABASE_REGION'')
                   (file_var w cf ''SUPABASE_REGION'') ''us-east-1'',
               supabase_access_token = supplied w cf ''SUPABASE_ACCESS_TOKEN'',
               supabase_service_role_key = supplied w cf ''SUPABASE_SERVICE_ROLE_KEY'',
               supabase_api_url =
                 precedence (env_var w ''supabase_api_url'')
                   (file_var w cf ''supabase_api_url'') ''https://api.supabase.com'',
               query_api_key =
                 precedence (env_var w ''QUERY_API_KEY'')
                   (file_var w cf ''QUERY_API_KEY'') ''test-key'',
               query_api_url =
                 precedence (env_var w ''QUERY_API_URL'')
                   (file_var w cf ''QUERY_API_URL'') ''https://api.thequery.dev/v1''\<rparr>"
proof -
  let ?ref = "precedence (env_var w ''SUPABASE_PROJECT_REF'')
                (file_var w cf ''SUPABASE_PROJECT_REF'') ''127.0.0.1:54322''"
  obtain r where r: "validate_project_ref ?ref = Inr r"
    using assms by (cases "validate_project_ref ?ref")
      (simp_all add: SettingsWithConfig_eq Let_def split: prod.splits)
  then have rv: "r = ?ref" by (simp add: validate_project_ref_Inr)
  obtain vp lgp where v: "validate_db_password (supplied w cf ''SUPABASE_DB_PASSWORD'')
      [''supabase_project_ref'' \<mapsto> r] = (vp, lgp)"
    by (cases "validate_db_password (supplied w cf ''SUPABASE_DB_PASSWORD'')
      [''supabase_project_ref'' \<mapsto> r]")
  obtain p where p: "vp = Inr p"
    using assms r v by (cases vp) (simp_all add: SettingsWithConfig_eq Let_def)
  from v p have pv: "lgp = []"
      "p = (case supplied w cf ''SUPABASE_DB_PASSWORD'' of
              None \<Rightarrow> ''postgres'' | Some q \<Rightarrow> if q = [] then ''postgres'' else q)"
    using validate_db_password_Inr by blast+
  have e: "dotenv_extra w cf = []"
    using assms r v p by (cases "dotenv_extra w cf") (simp_all add: SettingsWithConfig_eq Let_def)
  show "dotenv_extra w cf = []" by (rule e)
  show "lg = []"
    using assms r v p e pv(1) by (simp add: SettingsWithConfig_eq Let_def)
  show "s = \<lparr>supabase_project_ref = ?ref,
               supabase_db_password =
                 Some (case supplied w cf ''SUPABASE_DB_PASSWORD'' of
                         None \<Rightarrow> ''postgres''
                       | Some q \<Rightarrow> if q = [] then ''postgres'' else q),
               supabase_region =
                 precedence (env_var w ''SUPABASE_REGION'')
                   (file_var w cf ''SUPABASE_REGION'') ''us-east-1'',
               supabase_access_token = supplied w cf ''SUPABASE_ACCESS_TOKEN'',
               supabase_service_role_key = supplied w cf ''SUPABASE_SERVICE_ROLE_KEY'',
               supabase_api_url =
                 precedence (env_var w ''supabase_api_url'')
                   (file_var w cf ''supabase_api_url'') ''https://api.supabase.com'',
               query_api_key =
                 precedence (env_var w ''QUERY_API_KEY'')
                   (file_var w cf ''QUERY_API_KEY'') ''test-key'',
               query_api_url =
                 precedence (env_var w ''QUERY_API_URL'')
                   (file_var w cf ''QUERY_API_URL'') ''https://api.thequery.dev/v1''\<rparr>"
    using assms r v p e pv(2) rv by (simp add: SettingsWithConfig_eq Let_def)
qed

lemma with_config_Inr:
  assumes "with_config w cf = (Inr s, lg)"
  shows "SettingsWithConfig w cf = (Inr s, [])"
proof -
  obtain res lg' where c: "SettingsWithConfig w cf = (res, lg')"
    by (cases "SettingsWithConfig w cf")
  with assms have "res = Inr s"
    by (cases res) (simp_all add: with_config_def Let_def)
  with c SettingsWithConfig_Inr(1) show ?thesis by blast
qed

section \<open>Claims\<close>

lemma startswith_empty: "\<not> startswith [] ''127.0.0.1''"
  by (simp add: startswith_def)

text \<open>
  C2. When the resolved project reference does not start with \<open>127.0.0.1\<close> and no source
  supplies a database password, resolution fails with a \<open>ValidationError\<close> that names the
  password, and the log holds exactly one line, the error the validator reported before it
  raised. An empty project reference is such a reference too: its own failure keeps it out of
  \<open>info.data\<close>, and the password validator then reads the empty string.
\<close>

theorem remote_requires_password:
  assumes "\<not> startswith (precedence (env_var w ''SUPABASE_PROJECT_REF'')
              (file_var w cf ''SUPABASE_PROJECT_REF'') ''127.0.0.1:54322'') ''127.0.0.1''"
    and "supplied w cf ''SUPABASE_DB_PASSWORD'' = None"
  shows "\<exists>errs. with_config w cf =
           (Inl (ValidationError errs),
            [LogError ''SUPABASE_DB_PASSWORD is required when connecting to a remote instance''])
         \<and> (''SUPABASE_DB_PASSWORD'', ''Database password is required for remote Supabase projects.'')
             \<in> set errs"
  using assms
  by (simp add: with_config_def SettingsWithConfig_eq validate_project_ref_def
        validate_db_password_def field_errors_def startswith_empty Let_def)

theorem remote_requires_password_witness:
  "\<not> startswith
       (precedence
          (env_var (sample_world [(''SUPABASE_PROJECT_REF'', ''myproject.supabase.co'')]
             (\<lambda>p. Missing) (\<lambda>p. None)) ''SUPABASE_PROJECT_REF'')
          (file_var (sample_world [(''SUPABASE_PROJECT_REF'', ''myproject.supabase.co'')]
             (\<lambda>p. Missing) (\<lambda>p. None)) None ''SUPABASE_PROJECT_REF'')
          ''127.0.0.1:54322'')
       ''127.0.0.1''
   \<and> supplied (sample_world [(''SUPABASE_PROJECT_REF'', ''myproject.supabase.co'')]
        (\<lambda>p. Missing) (\<lambda>p. None)) None ''SUPABASE_DB_PASSWORD'' = None
   \<and> (\<exists>errs. with_config (sample_world [(''SUPABASE_PROJECT_REF'', ''myproject.supabase.co'')]
          (\<lambda>p. Missing) (\<lambda>p. None)) None =
        (Inl (ValidationError errs),
         [LogError ''SUPABASE_DB_PASSWORD is required when connecting to a remote instance'']))"
proof -
  let ?w = "sample_world [(''SUPABASE_PROJECT_REF'', ''myproject.supabase.co'')]
              (\<lambda>p. Missing) (\<lambda>p. None)"
  have h1: "\<not> startswith (precedence (env_var ?w ''SUPABASE_PROJECT_REF'')
              (file_var ?w None ''SUPABASE_PROJECT_REF'') ''127.0.0.1:54322'') ''127.0.0.1''"
    by (simp add: env_var_def file_var_def sample_world_def parse_env_vars_def dotenv_vars_def
          lower_keys precedence_def startswith_def)
  have h2: "supplied ?w None ''SUPABASE_DB_PASSWORD'' = None"
    by (simp add: supplied_def env_var_def file_var_def sample_world_def parse_env_vars_def
          dotenv_vars_def lower_keys precedence_def)
  from remote_requires_password [OF h1 h2] h1 h2 show ?thesis by blast
qed

lemma parse_env_vars_None:
  "parse_env_vars vars n = None \<longleftrightarrow> n \<notin> (lower \<circ> fst) ` set vars"
  by (force simp: parse_env_vars_def map_of_eq_None_iff image_iff)

lemma environ_mem_env_var: "environ_mem k (environ w) \<Longrightarrow> env_var w k \<noteq> None"
  unfolding environ_mem_def env_var_def parse_env_vars_None by force

lemma no_file: "file_var w None k = None" "dotenv_extra w None = []"
  by (simp_all add: file_var_def dotenv_vars_def parse_env_vars_def dotenv_extra_def)

lemmas sources_defs =
  env_var_def file_var_def supplied_def sample_world_def parse_env_vars_def dotenv_vars_def
  lower_keys precedence_def

text \<open>
  C3. With no recognised variable in the environment and no config file, resolution succeeds
  with project reference \<open>127.0.0.1:54322\<close>, region \<open>us-east-1\<close> and password
  \<open>postgres\<close>; the remaining fields take their declared defaults and the one log line
  says that defaults are in use.
\<close>

theorem defaults_without_sources:
  assumes "\<forall>f \<in> set model_fields. env_var w (field_key f) = None"
  shows "with_config w None =
          (Inr \<lparr>supabase_project_ref = ''127.0.0.1:54322'',
                supabase_db_password = Some ''postgres'',
                supabase_region = ''us-east-1'',
                supabase_access_token = None,
                supabase_service_role_key = None,
                supabase_api_url = ''https://api.supabase.com'',
                query_api_key = ''test-key'',
                query_api_url = ''https://api.thequery.dev/v1''\<rparr>,
           [LogInfo ''Using default settings (local development)''])"
proof -
  from assms have e: "env_var w k = None" if "k \<in> field_key ` set model_fields" for k
    using that by auto
  have m: "\<not> environ_mem ''SUPABASE_PROJECT_REF'' (environ w)"
      "\<not> environ_mem ''SUPABASE_DB_PASSWORD'' (environ w)"
    using environ_mem_env_var e field_key_mem by blast+
  show ?thesis
    by (simp add: with_config_def SettingsWithConfig_eq e field_key_mem no_file m supplied_alt
          precedence_def validate_project_ref_def validate_db_password_def startswith_def)
qed

theorem defaults_without_sources_witness:
  "fst (with_config (sample_world [(''PATH'', ''/usr/bin'')] (\<lambda>p. Missing) (\<lambda>p. None)) None) =
     Inr \<lparr>supabase_project_ref = ''127.0.0.1:54322'',
          supabase_db_password = Some ''postgres'',
          supabase_region = ''us-east-1'',
          supabase_access_token = None,
          supabase_service_role_key = None,
          supabase_api_url = ''https://api.supabase.com'',
          query_api_key = ''test-key'',
          query_api_url = ''https://api.thequery.dev/v1''\<rparr>"
proof -
  let ?w = "sample_world [(''PATH'', ''/usr/bin'')] (\<lambda>p. Missing) (\<lambda>p. None)"
  have h: "\<forall>f \<in> set model_fields. env_var ?w (field_key f) = None"
    by (simp add: model_fields_def field_key_def env_var_def sample_world_def parse_env_vars_def
          lower_def lower_char_def)
  from defaults_without_sources [OF h] show ?thesis by simp
qed

text \<open>
  C5. When the resolved project reference is the empty string, resolution fails with a
  \<open>ValidationError\<close> that names the project reference, whatever the other fields hold.
\<close>

theorem empty_project_ref_rejected:
  assumes "precedence (env_var w ''SUPABASE_PROJECT_REF'')
             (file_var w cf ''SUPABASE_PROJECT_REF'') ''127.0.0.1:54322'' = []"
  shows "\<exists>errs lg. with_config w cf = (Inl (ValidationError errs), lg)
           \<and> (''SUPABASE_PROJECT_REF'', ''SUPABASE_PROJECT_REF cannot be empty.'') \<in> set errs"
  using assms
  by (simp add: with_config_def SettingsWithConfig_eq validate_project_ref_def field_errors_def
        Let_def split: prod.splits)

theorem empty_project_ref_rejected_witness:
  "precedence
     (env_var (sample_world [(''SUPABASE_PROJECT_REF'', ''''), (''SUPABASE_DB_PASSWORD'', ''s3cr3t'')]
        (\<lambda>p. Missing) (\<lambda>p. None)) ''SUPABASE_PROJECT_REF'')
     (file_var (sample_world [(''SUPABASE_PROJECT_REF'', ''''), (''SUPABASE_DB_PASSWORD'', ''s3cr3t'')]
        (\<lambda>p. Missing) (\<lambda>p. None)) None ''SUPABASE_PROJECT_REF'')
     ''127.0.0.1:54322'' = []
   \<and> (\<exists>errs lg.
        with_config (sample_world [(''SUPABASE_PROJECT_REF'', ''''), (''SUPABASE_DB_PASSWORD'', ''s3cr3t'')]
          (\<lambda>p. Missing) (\<lambda>p. None)) None = (Inl (ValidationError errs), lg))"
proof -
  let ?w = "sample_world [(''SUPABASE_PROJECT_REF'', ''''), (''SUPABASE_DB_PASSWORD'', ''s3cr3t'')]
              (\<lambda>p. Missing) (\<lambda>p. None)"
  have h: "precedence (env_var ?w ''SUPABASE_PROJECT_REF'')
             (file_var ?w None ''SUPABASE_PROJECT_REF'') ''127.0.0.1:54322'' = []"
    by (simp add: sources_defs)
  from empty_project_ref_rejected [OF h] h show ?thesis by blast
qed

text \<open>
  C9. Resolution reads nothing but the environment and the contents of the config file: two
  runs that agree on both return the same result, the same settings field by field or the
  same error, and the same log, whatever else differs between them.
\<close>

theorem resolution_deterministic:
  assumes "environ w1 = environ w2" and "dotenv_vars w1 cf = dotenv_vars w2 cf"
  shows "with_config w1 cf = with_config w2 cf"
proof -
  from assms have "build_values w1 cf = build_values w2 cf"
    by (simp add: build_values_def env_settings_def dotenv_settings_def dotenv_extra_def)
  with assms(1) show ?thesis
    by (simp only: with_config_def SettingsWithConfig_def)
qed

theorem resolution_deterministic_witness:
  "with_config
     (sample_world [(''SUPABASE_REGION'', ''ap-south-1'')] (\<lambda>p. Missing)
        (\<lambda>p. Some [(''SUPABASE_REGION'', ''eu-west-1'')]))
     (Some ''/srv/app/.env'') =
   with_config
     (sample_world [(''SUPABASE_REGION'', ''ap-south-1'')] (\<lambda>p. RegularFile)
        (\<lambda>p. Some [(''SUPABASE_REGION'', ''eu-west-1'')]))
     (Some ''/srv/app/.env'')"
proof -
  let ?w1 = "sample_world [(''SUPABASE_REGION'', ''ap-south-1'')] (\<lambda>p. Missing)
               (\<lambda>p. Some [(''SUPABASE_REGION'', ''eu-west-1'')])"
  let ?w2 = "sample_world [(''SUPABASE_REGION'', ''ap-south-1'')] (\<lambda>p. RegularFile)
               (\<lambda>p. Some [(''SUPABASE_REGION'', ''eu-west-1'')])"
  have h1: "environ ?w1 = environ ?w2"
    by (simp add: sample_world_def)
  have h2: "dotenv_vars ?w1 (Some ''/srv/app/.env'') = dotenv_vars ?w2 (Some ''/srv/app/.env'')"
    by (simp add: sample_world_def dotenv_vars_def)
  from resolution_deterministic [OF h1 h2] show ?thesis .
qed

text \<open>
  C10. When the resolved project reference does not start with \<open>127.0.0.1\<close> and the
  password the sources supply is the empty string, resolution fails exactly as it does for
  a missing password: a \<open>ValidationError\<close> that names the password, after one error line
  in the log.
\<close>

theorem remote_rejects_empty_password:
  assumes "\<not> startswith (precedence (env_var w ''SUPABASE_PROJECT_REF'')
              (file_var w cf ''SUPABASE_PROJECT_REF'') ''127.0.0.1:54322'') ''127.0.0.1''"
    and "supplied w cf ''SUPABASE_DB_PASSWORD'' = Some []"
  shows "\<exists>errs. with_config w cf =
           (Inl (ValidationError errs),
            [LogError ''SUPABASE_DB_PASSWORD is required when connecting to a remote instance''])
         \<and> (''SUPABASE_DB_PASSWORD'', ''Database password is required for remote Supabase projects.'')
             \<in> set errs"
  using assms
  by (simp add: with_config_def SettingsWithConfig_eq validate_project_ref_def
        validate_db_password_def field_errors_def startswith_empty Let_def)

theorem remote_rejects_empty_password_witness:
  "supplied
     (sample_world [(''SUPABASE_PROJECT_REF'', ''myproject.supabase.co''), (''SUPABASE_DB_PASSWORD'', '''')]
        (\<lambda>p. Missing) (\<lambda>p. None)) None ''SUPABASE_DB_PASSWORD'' = Some []
   \<and> (\<exists>errs.
        with_config
          (sample_world [(''SUPABASE_PROJECT_REF'', ''myproject.supabase.co''), (''SUPABASE_DB_PASSWORD'', '''')]
             (\<lambda>p. Missing) (\<lambda>p. None)) None =
        (Inl (ValidationError errs),
         [LogError ''SUPABASE_DB_PASSWORD is required when connecting to a remote instance'']))"
proof -
  let ?w = "sample_world [(''SUPABASE_PROJECT_REF'', ''myproject.supabase.co''), (''SUPABASE_DB_PASSWORD'', '''')]
              (\<lambda>p. Missing) (\<lambda>p. None)"
  have h1: "\<not> startswith (precedence (env_var ?w ''SUPABASE_PROJECT_REF'')
              (file_var ?w None ''SUPABASE_PROJECT_REF'') ''127.0.0.1:54322'') ''127.0.0.1''"
    by (simp add: sources_defs startswith_def)
  have h2: "supplied ?w None ''SUPABASE_DB_PASSWORD'' = Some []"
    by (simp add: sources_defs)
  from remote_rejects_empty_password [OF h1 h2] h2 show ?thesis by blast
qed

lemmas run_defs =
  with_config_def SettingsWithConfig_eq validate_project_ref_def validate_db_password_def
  field_errors_def startswith_def dotenv_extra_def source_data_def model_fields_def
  field_key_def field_env_name_def environ_mem_def

text \<open>
  C1, as stated, fails for the database password: with nothing in the environment and no
  config file the resolved password is \<open>postgres\<close>, not the declared default \<open>None\<close>.
\<close>

theorem password_default_counterexample:
  "env_var (sample_world [] (\<lambda>p. Missing) (\<lambda>p. None)) ''SUPABASE_DB_PASSWORD'' = None
   \<and> file_var (sample_world [] (\<lambda>p. Missing) (\<lambda>p. None)) None ''SUPABASE_DB_PASSWORD'' = None
   \<and> map_sum id supabase_db_password
        (fst (with_config (sample_world [] (\<lambda>p. Missing) (\<lambda>p. None)) None)) =
      Inr (Some ''postgres'')
   \<and> Some ''postgres'' \<noteq> (None :: string option)"
  by (simp add: sources_defs run_defs)

text \<open>
  C1, amended. Whenever resolution returns settings, every field but the database password
  holds the value of its environment variable if that is set, otherwise the value of the
  config file if the key is there, otherwise its declared default, each field on its own.
  The variable of a field is its alias, and for the platform API base URL, which declares
  none, the field's own name \<open>supabase_api_url\<close>; names are compared in lower case. The
  database password is chosen from the sources by the same rule and then goes through its
  validator: a non-empty value stays, a missing or empty one becomes \<open>postgres\<close>.
\<close>

theorem per_field_precedence:
  assumes "with_config w cf = (Inr s, lg)"
  shows "supabase_project_ref s =
           precedence (env_var w ''SUPABASE_PROJECT_REF'') (file_var w cf ''SUPABASE_PROJECT_REF'')
             ''127.0.0.1:54322''
       \<and> supabase_region s =
           precedence (env_var w ''SUPABASE_REGION'') (file_var w cf ''SUPABASE_REGION'') ''us-east-1''
       \<and> supabase_access_token s =
           precedence (map_option Some (env_var w ''SUPABASE_ACCESS_TOKEN''))
             (map_option Some (file_var w cf ''SUPABASE_ACCESS_TOKEN'')) None
       \<and> supabase_service_role_key s =
           precedence (map_option Some (env_var w ''SUPABASE_SERVICE_ROLE_KEY''))
             (map_option Some (file_var w cf ''SUPABASE_SERVICE_ROLE_KEY'')) None
       \<and> supabase_api_url s =
           precedence (env_var w ''supabase_api_url'') (file_var w cf ''supabase_api_url'')
             ''https://api.supabase.com''
       \<and> query_api_key s =
           precedence (env_var w ''QUERY_API_KEY'') (file_var w cf ''QUERY_API_KEY'') ''test-key''
       \<and> query_api_url s =
           precedence (env_var w ''QUERY_API_URL'') (file_var w cf ''QUERY_API_URL'')
             ''https://api.thequery.dev/v1''
       \<and> supabase_db_password s =
           (case precedence (map_option Some (env_var w ''SUPABASE_DB_PASSWORD''))
                   (map_option Some (file_var w cf ''SUPABASE_DB_PASSWORD'')) None of
              None \<Rightarrow> Some ''postgres''
            | Some p \<Rightarrow> if p = [] then Some ''postgres'' else Some p)"
proof -
  note s = SettingsWithConfig_Inr(3) [OF with_config_Inr [OF assms]]
  show ?thesis
    by (subst s)+ (simp add: supplied_def split: option.splits)
qed

theorem per_field_precedence_witness:
  "with_config
     (sample_world [(''SUPABASE_REGION'', ''ap-south-1'')] (\<lambda>p. Missing)
        (\<lambda>p. Some [(''SUPABASE_REGION'', ''eu-west-1''), (''SUPABASE_ACCESS_TOKEN'', ''tok'')]))
     (Some ''/srv/app/.env'') =
     (Inr \<lparr>supabase_project_ref = ''127.0.0.1:54322'',
           supabase_db_password = Some ''postgres'',
           supabase_region = ''ap-south-1'',
           supabase_access_token = Some ''tok'',
           supabase_service_role_key = None,
           supabase_api_url = ''https://api.supabase.com'',
           query_api_key = ''test-key'',
           query_api_url = ''https://api.thequery.dev/v1''\<rparr>,
      [LogInfo ''Using settings from config file: /srv/app/.env''])
   \<and> precedence
        (env_var (sample_world [(''SUPABASE_REGION'', ''ap-south-1'')] (\<lambda>p. Missing)
           (\<lambda>p. Some [(''SUPABASE_REGION'', ''eu-west-1''), (''SUPABASE_ACCESS_TOKEN'', ''tok'')]))
           ''SUPABASE_REGION'')
        (file_var (sample_world [(''SUPABASE_REGION'', ''ap-south-1'')] (\<lambda>p. Missing)
           (\<lambda>p. Some [(''SUPABASE_REGION'', ''eu-west-1''), (''SUPABASE_ACCESS_TOKEN'', ''tok'')]))
           (Some ''/srv/app/.env'') ''SUPABASE_REGION'')
        ''us-east-1'' = ''ap-south-1''"
proof -
  let ?w = "sample_world [(''SUPABASE_REGION'', ''ap-south-1'')] (\<lambda>p. Missing)
        (\<lambda>p. Some [(''SUPABASE_REGION'', ''eu-west-1''), (''SUPABASE_ACCESS_TOKEN'', ''tok'')])"
  let ?s = "\<lparr>supabase_project_ref = ''127.0.0.1:54322'',
          supabase_db_password = Some ''postgres'',
          supabase_region = ''ap-south-1'',
          supabase_access_token = Some ''tok'',
          supabase_service_role_key = None,
          supabase_api_url = ''https://api.supabase.com'',
          query_api_key = ''test-key'',
          query_api_url = ''https://api.thequery.dev/v1''\<rparr>"
  have h: "with_config ?w (Some ''/srv/app/.env'') =
      (Inr ?s, [LogInfo ''Using settings from config file: /srv/app/.env''])"
    by (simp add: sources_defs run_defs)
  from per_field_precedence [OF h] h show ?thesis by simp
qed

text \<open>
  C4, as stated, fails for an explicitly empty password: with
  \<open>SUPABASE_DB_PASSWORD=""\<close> and the default loopback reference, the resolved password is
  \<open>postgres\<close>, not the supplied empty string.
\<close>

theorem empty_password_counterexample:
  "supplied (sample_world [(''SUPABASE_DB_PASSWORD'', '''')] (\<lambda>p. Missing) (\<lambda>p. None)) None
     ''SUPABASE_DB_PASSWORD'' = Some []
   \<and> map_sum id supabase_project_ref
        (fst (with_config (sample_world [(''SUPABASE_DB_PASSWORD'', '''')] (\<lambda>p. Missing) (\<lambda>p. None))
           None)) = Inr ''127.0.0.1:54322''
   \<and> startswith ''127.0.0.1:54322'' ''127.0.0.1''
   \<and> map_sum id supabase_db_password
        (fst (with_config (sample_world [(''SUPABASE_DB_PASSWORD'', '''')] (\<lambda>p. Missing) (\<lambda>p. None))
           None)) = Inr (Some ''postgres'')"
  by (simp add: sources_defs run_defs)

text \<open>
  C4, amended. When the resolved project reference starts with \<open>127.0.0.1\<close>, resolution
  succeeds if the config file holds no unknown key, and whenever it succeeds the resolved
  password is \<open>postgres\<close> if no source supplies a password or the supplied one is empty,
  and the supplied value unchanged if it is not empty.
\<close>

theorem loopback_password:
  assumes "startswith (precedence (env_var w ''SUPABASE_PROJECT_REF'')
             (file_var w cf ''SUPABASE_PROJECT_REF'') ''127.0.0.1:54322'') ''127.0.0.1''"
  shows "(dotenv_extra w cf = [] \<longrightarrow> (\<exists>s lg. with_config w cf = (Inr s, lg)))
       \<and> (\<forall>s lg. with_config w cf = (Inr s, lg) \<longrightarrow>
            (supplied w cf ''SUPABASE_DB_PASSWORD'' = None \<longrightarrow>
               supabase_db_password s = Some ''postgres'')
          \<and> (supplied w cf ''SUPABASE_DB_PASSWORD'' = Some [] \<longrightarrow>
               supabase_db_password s = Some ''postgres'')
          \<and> (\<forall>p. supplied w cf ''SUPABASE_DB_PASSWORD'' = Some p \<and> p \<noteq> [] \<longrightarrow>
               supabase_db_password s = Some p))"
proof (intro conjI allI impI)
  assume e: "dotenv_extra w cf = []"
  from assms have "precedence (env_var w ''SUPABASE_PROJECT_REF'')
      (file_var w cf ''SUPABASE_PROJECT_REF'') ''127.0.0.1:54322'' \<noteq> []"
    using startswith_empty by auto
  with assms e show "\<exists>s lg. with_config w cf = (Inr s, lg)"
    by (simp add: with_config_def SettingsWithConfig_eq validate_project_ref_def
          validate_db_password_def Let_def)
next
  fix s lg assume "with_config w cf = (Inr s, lg)"
  note s = SettingsWithConfig_Inr(3) [OF with_config_Inr [OF this]]
  { assume "supplied w cf ''SUPABASE_DB_PASSWORD'' = None"
    then show "supabase_db_password s = Some ''postgres''" by (subst s) simp }
  { assume "supplied w cf ''SUPABASE_DB_PASSWORD'' = Some []"
    then show "supabase_db_password s = Some ''postgres''" by (subst s) simp }
  { fix p assume "supplied w cf ''SUPABASE_DB_PASSWORD'' = Some p \<and> p \<noteq> []"
    then show "supabase_db_password s = Some p" by (subst s) simp }
qed

theorem loopback_password_witness:
  "startswith
     (precedence
        (env_var (sample_world [(''SUPABASE_DB_PASSWORD'', ''s3cr3t'')] (\<lambda>p. Missing) (\<lambda>p. None))
           ''SUPABASE_PROJECT_REF'')
        (file_var (sample_world [(''SUPABASE_DB_PASSWORD'', ''s3cr3t'')] (\<lambda>p. Missing) (\<lambda>p. None))
           None ''SUPABASE_PROJECT_REF'')
        ''127.0.0.1:54322'')
     ''127.0.0.1''
   \<and> supplied (sample_world [(''SUPABASE_DB_PASSWORD'', ''s3cr3t'')] (\<lambda>p. Missing) (\<lambda>p. None))
        None ''SUPABASE_DB_PASSWORD'' = Some ''s3cr3t''
   \<and> map_sum id supabase_db_password
        (fst (with_config (sample_world [(''SUPABASE_DB_PASSWORD'', ''s3cr3t'')] (\<lambda>p. Missing)
           (\<lambda>p. None)) None)) = Inr (Some ''s3cr3t'')"
proof -
  let ?w = "sample_world [(''SUPABASE_DB_PASSWORD'', ''s3cr3t'')] (\<lambda>p. Missing) (\<lambda>p. None)"
  have h: "startswith (precedence (env_var ?w ''SUPABASE_PROJECT_REF'')
             (file_var ?w None ''SUPABASE_PROJECT_REF'') ''127.0.0.1:54322'') ''127.0.0.1''"
    by (simp add: sources_defs startswith_def)
  have p: "supplied ?w None ''SUPABASE_DB_PASSWORD'' = Some ''s3cr3t''"
    by (simp add: sources_defs)
  have e: "dotenv_extra ?w None = []"
    by (rule no_file)
  from loopback_password [OF h] e obtain s lg where r: "with_config ?w None = (Inr s, lg)"
    by blast
  with loopback_password [OF h] p have "supabase_db_password s = Some ''s3cr3t''"
    by blast
  with r h p show ?thesis by simp
qed

text \<open>
  C6, as stated, fails when \<open><cwd>/.env\<close> is a directory: it is not a regular file and the
  global path exists, yet the locator returns the working-directory path and logs nothing,
  because \<open>Path.exists()\<close> does not ask what kind of entry it found.
\<close>

theorem locator_directory_counterexample:
  "stat (sample_world []
          (\<lambda>p. if p = ''/srv/app/.env'' then Directory
               else if p = ''/home/dev/.config/supabase-mcp/.env'' then RegularFile else Missing)
          (\<lambda>p. None))
     ''/srv/app/.env'' \<noteq> RegularFile
   \<and> global_config (sample_world []
          (\<lambda>p. if p = ''/srv/app/.env'' then Directory
               else if p = ''/home/dev/.config/supabase-mcp/.env'' then RegularFile else Missing)
          (\<lambda>p. None)) = ''/home/dev/.config/supabase-mcp/.env''
   \<and> stat (sample_world []
          (\<lambda>p. if p = ''/srv/app/.env'' then Directory
               else if p = ''/home/dev/.config/supabase-mcp/.env'' then RegularFile else Missing)
          (\<lambda>p. None))
     ''/home/dev/.config/supabase-mcp/.env'' = RegularFile
   \<and> find_config_file (sample_world []
          (\<lambda>p. if p = ''/srv/app/.env'' then Directory
               else if p = ''/home/dev/.config/supabase-mcp/.env'' then RegularFile else Missing)
          (\<lambda>p. None))
     ''.env'' = (Inr (Some ''/srv/app/.env''), [])"
  by (simp add: sample_world_def global_config_def find_config_file_def path_exists_def)

text \<open>
  C6, amended. For every filename the locator follows the strict order: if
  \<open><cwd>/<filename>\<close> exists, as a regular file or as a directory, it returns that path and
  logs nothing, whatever the global path is (also when probing it would fail); otherwise, if
  the global path of the platform exists, it logs the deprecation notice and returns that
  path; otherwise it returns \<open>None\<close> without an error.
\<close>

theorem locator_order:
  "(stat w (pathjoin w (cwd w) env_file) \<in> {RegularFile, Directory} \<longrightarrow>
      find_config_file w env_file = (Inr (Some (pathjoin w (cwd w) env_file)), []))
   \<and> (stat w (pathjoin w (cwd w) env_file) = Missing
        \<and> stat w (global_config w) \<in> {RegularFile, Directory} \<longrightarrow>
      find_config_file w env_file =
        (Inr (Some (global_config w)), [LogError (deprecated_message (global_config w))]))
   \<and> (stat w (pathjoin w (cwd w) env_file) = Missing \<and> stat w (global_config w) = Missing \<longrightarrow>
      find_config_file w env_file = (Inr None, []))"
  by (auto simp: find_config_file_def path_exists_def Let_def)

theorem locator_order_witness:
  "find_config_file
     (sample_world [] (\<lambda>p. if p = ''/srv/app/.env'' then RegularFile else AccessDenied) (\<lambda>p. None))
     ''.env'' = (Inr (Some ''/srv/app/.env''), [])
   \<and> find_config_file
       (sample_world []
          (\<lambda>p. if p = ''/home/dev/.config/supabase-mcp/.env'' then RegularFile else Missing)
          (\<lambda>p. None))
       ''.env'' =
      (Inr (Some ''/home/dev/.config/supabase-mcp/.env''),
       [LogError (deprecated_message ''/home/dev/.config/supabase-mcp/.env'')])
   \<and> find_config_file (sample_world [] (\<lambda>p. Missing) (\<lambda>p. None)) ''.env'' = (Inr None, [])"
proof -
  let ?w1 = "sample_world [] (\<lambda>p. if p = ''/srv/app/.env'' then RegularFile else AccessDenied)
               (\<lambda>p. None)"
  let ?w2 = "sample_world []
               (\<lambda>p. if p = ''/home/dev/.config/supabase-mcp/.env'' then RegularFile else Missing)
               (\<lambda>p. None)"
  let ?w3 = "sample_world [] (\<lambda>p. Missing) (\<lambda>p. None)"
  have c1: "pathjoin ?w1 (cwd ?w1) ''.env'' = ''/srv/app/.env''"
    and h1: "stat ?w1 (pathjoin ?w1 (cwd ?w1) ''.env'') \<in> {RegularFile, Directory}"
    by (simp_all add: sample_world_def)
  have g2: "global_config ?w2 = ''/home/dev/.config/supabase-mcp/.env''"
    and h2: "stat ?w2 (pathjoin ?w2 (cwd ?w2) ''.env'') = Missing
             \<and> stat ?w2 (global_config ?w2) \<in> {RegularFile, Directory}"
    by (simp_all add: sample_world_def global_config_def)
  have h3: "stat ?w3 (pathjoin ?w3 (cwd ?w3) ''.env'') = Missing
            \<and> stat ?w3 (global_config ?w3) = Missing"
    by (simp add: sample_world_def)
  have "find_config_file ?w1 ''.env'' = (Inr (Some (pathjoin ?w1 (cwd ?w1) ''.env'')), [])"
    using locator_order [of ?w1 "''.env''"] h1 by blast
  then have r1: "find_config_file ?w1 ''.env'' = (Inr (Some ''/srv/app/.env''), [])"
    by (simp only: c1)
  have "find_config_file ?w2 ''.env'' =
      (Inr (Some (global_config ?w2)), [LogError (deprecated_message (global_config ?w2))])"
    using locator_order [of ?w2 "''.env''"] h2 by blast
  then have r2: "find_config_file ?w2 ''.env'' =
      (Inr (Some ''/home/dev/.config/supabase-mcp/.env''),
       [LogError (deprecated_message ''/home/dev/.config/supabase-mcp/.env'')])"
    by (simp only: g2)
  have r3: "find_config_file ?w3 ''.env'' = (Inr None, [])"
    using locator_order [of ?w3 "''.env''"] h3 by blast
  from r1 r2 r3 show ?thesis by blast
qed

text \<open>
  C7, as stated, fails when the only recognised variable in the environment is one the code
  does not look at: with \<open>SUPABASE_REGION\<close> set and no config file, the region comes from
  the environment and the log line says that defaults are in use.
\<close>

theorem region_only_counterexample:
  "env_var (sample_world [(''SUPABASE_REGION'', ''eu-west-1'')] (\<lambda>p. Missing) (\<lambda>p. None))
     ''SUPABASE_REGION'' = Some ''eu-west-1''
   \<and> with_config (sample_world [(''SUPABASE_REGION'', ''eu-west-1'')] (\<lambda>p. Missing) (\<lambda>p. None))
       None =
      (Inr \<lparr>supabase_project_ref = ''127.0.0.1:54322'',
            supabase_db_password = Some ''postgres'',
            supabase_region = ''eu-west-1'',
            supabase_access_token = None,
            supabase_service_role_key = None,
            supabase_api_url = ''https://api.supabase.com'',
            query_api_key = ''test-key'',
            query_api_url = ''https://api.thequery.dev/v1''\<rparr>,
       [LogInfo ''Using default settings (local development)''])"
  by (simp add: sources_defs run_defs)

text \<open>
  C7, amended. Every successful construction emits exactly one log line, an informational
  one, chosen by whether \<open>SUPABASE_PROJECT_REF\<close> or \<open>SUPABASE_DB_PASSWORD\<close> is in the
  environment and whether a non-empty config file path was given: both, the environment
  over the file; only such a variable, the environment; only the path, the file; neither,
  the defaults. The settings returned are those the construction produced before the line
  was chosen.
\<close>

theorem source_log_line:
  assumes "with_config w cf = (Inr s, lg)"
  shows "SettingsWithConfig w cf = (Inr s, [])
       \<and> (\<exists>msg. lg = [LogInfo msg]
           \<and> (\<forall>p. (environ_mem ''SUPABASE_PROJECT_REF'' (environ w)
                      \<or> environ_mem ''SUPABASE_DB_PASSWORD'' (environ w))
                   \<and> cf = Some p \<and> p \<noteq> [] \<longrightarrow>
                 msg = ''Using environment variables over config file: '' @ p)
           \<and> ((environ_mem ''SUPABASE_PROJECT_REF'' (environ w)
                  \<or> environ_mem ''SUPABASE_DB_PASSWORD'' (environ w))
               \<and> (cf = None \<or> cf = Some []) \<longrightarrow>
                 msg = ''Using environment variables for configuration'')
           \<and> (\<forall>p. \<not> environ_mem ''SUPABASE_PROJECT_REF'' (environ w)
                   \<and> \<not> environ_mem ''SUPABASE_DB_PASSWORD'' (environ w)
                   \<and> cf = Some p \<and> p \<noteq> [] \<longrightarrow>
                 msg = ''Using settings from config file: '' @ p)
           \<and> (\<not> environ_mem ''SUPABASE_PROJECT_REF'' (environ w)
               \<and> \<not> environ_mem ''SUPABASE_DB_PASSWORD'' (environ w)
               \<and> (cf = None \<or> cf = Some []) \<longrightarrow>
                 msg = ''Using default settings (local development)''))"
proof -
  note c = with_config_Inr [OF assms]
  from assms show ?thesis
    unfolding with_config_def c by (cases cf) (auto simp: Let_def)
qed

theorem source_log_line_witness:
  "with_config
     (sample_world [(''SUPABASE_DB_PASSWORD'', ''s3cr3t'')] (\<lambda>p. Missing)
        (\<lambda>p. Some [(''SUPABASE_REGION'', ''eu-west-1'')]))
     (Some ''/srv/app/.env'') =
     (Inr \<lparr>supabase_project_ref = ''127.0.0.1:54322'',
           supabase_db_password = Some ''s3cr3t'',
           supabase_region = ''eu-west-1'',
           supabase_access_token = None,
           supabase_service_role_key = None,
           supabase_api_url = ''https://api.supabase.com'',
           query_api_key = ''test-key'',
           query_api_url = ''https://api.thequery.dev/v1''\<rparr>,
      [LogInfo ''Using environment variables over config file: /srv/app/.env''])
   \<and> fst (SettingsWithConfig
        (sample_world [(''SUPABASE_DB_PASSWORD'', ''s3cr3t'')] (\<lambda>p. Missing)
           (\<lambda>p. Some [(''SUPABASE_REGION'', ''eu-west-1'')]))
        (Some ''/srv/app/.env'')) =
      Inr \<lparr>supabase_project_ref = ''127.0.0.1:54322'',
           supabase_db_password = Some ''s3cr3t'',
           supabase_region = ''eu-west-1'',
           supabase_access_token = None,
           supabase_service_role_key = None,
           supabase_api_url = ''https://api.supabase.com'',
           query_api_key = ''test-key'',
           query_api_url = ''https://api.thequery.dev/v1''\<rparr>"
proof -
  let ?w = "sample_world [(''SUPABASE_DB_PASSWORD'', ''s3cr3t'')] (\<lambda>p. Missing)
              (\<lambda>p. Some [(''SUPABASE_REGION'', ''eu-west-1'')])"
  let ?s = "\<lparr>supabase_project_ref = ''127.0.0.1:54322'',
             supabase_db_password = Some ''s3cr3t'',
             supabase_region = ''eu-west-1'',
             supabase_access_token = None,
             supabase_service_role_key = None,
             supabase_api_url = ''https://api.supabase.com'',
             query_api_key = ''test-key'',
             query_api_url = ''https://api.thequery.dev/v1''\<rparr>"
  have h: "with_config ?w (Some ''/srv/app/.env'') =
      (Inr ?s, [LogInfo ''Using environment variables over config file: /srv/app/.env''])"
    by (simp add: sources_defs run_defs)
  from source_log_line [OF h] h show ?thesis by simp
qed

lemma lower_api_url: "lower ''SUPABASE_API_URL'' = ''supabase_api_url''"
  by (simp add: lower_def lower_char_def)

text \<open>
  C8, as stated, fails: the field declares no alias, so the environment source reads it
  under its own name. Two runs with no config file that differ only in the variable
  \<open>SUPABASE_API_URL\<close> resolve different platform API base URLs.
\<close>

theorem api_url_env_counterexample:
  "dotenv_vars (sample_world [] (\<lambda>p. Missing) (\<lambda>p. None)) None =
     dotenv_vars (sample_world [(''SUPABASE_API_URL'', ''http://198.51.100.7'')] (\<lambda>p. Missing)
       (\<lambda>p. None)) None
   \<and> map_sum id supabase_api_url
        (fst (with_config (sample_world [] (\<lambda>p. Missing) (\<lambda>p. None)) None)) =
      Inr ''https://api.supabase.com''
   \<and> map_sum id supabase_api_url
        (fst (with_config
           (sample_world [(''SUPABASE_API_URL'', ''http://198.51.100.7'')] (\<lambda>p. Missing) (\<lambda>p. None))
           None)) =
      Inr ''http://198.51.100.7''"
  by (simp add: sources_defs run_defs lower_api_url)

text \<open>
  C8, amended. The platform API base URL declares no alias and is read under the field's own
  name: two successful resolutions over the same config file contents whose environments
  agree on the variable \<open>supabase_api_url\<close> (in any letter case) resolve the same URL,
  whatever else their environments hold. The URL is that variable's value if it is set,
  otherwise the file's value for that key, otherwise \<open>https://api.supabase.com\<close>.
\<close>

theorem api_url_sources:
  assumes "with_config w1 cf = (Inr s1, lg1)" and "with_config w2 cf = (Inr s2, lg2)"
    and "dotenv_vars w1 cf = dotenv_vars w2 cf"
    and "env_var w1 ''supabase_api_url'' = env_var w2 ''supabase_api_url''"
  shows "supabase_api_url s1 = supabase_api_url s2
       \<and> supabase_api_url s1 =
           precedence (env_var w1 ''supabase_api_url'') (file_var w1 cf ''supabase_api_url'')
             ''https://api.supabase.com''"
proof -
  note s1 = SettingsWithConfig_Inr(3) [OF with_config_Inr [OF assms(1)]]
  note s2 = SettingsWithConfig_Inr(3) [OF with_config_Inr [OF assms(2)]]
  from assms(3) have "file_var w1 cf ''supabase_api_url'' = file_var w2 cf ''supabase_api_url''"
    by (simp add: file_var_def)
  with assms(4) show ?thesis
    by (subst s1, subst s2, subst s1) simp
qed

theorem api_url_sources_witness:
  "map_sum id supabase_api_url
     (fst (with_config
        (sample_world [(''SUPABASE_REGION'', ''eu-west-1'')] (\<lambda>p. Missing)
           (\<lambda>p. Some [(''supabase_api_url'', ''https://api.example.test'')]))
        (Some ''/srv/app/.env''))) =
   map_sum id supabase_api_url
     (fst (with_config
        (sample_world [(''QUERY_API_KEY'', ''k'')] (\<lambda>p. Missing)
           (\<lambda>p. Some [(''supabase_api_url'', ''https://api.example.test'')]))
        (Some ''/srv/app/.env'')))
   \<and> map_sum id supabase_api_url
     (fst (with_config
        (sample_world [(''SUPABASE_REGION'', ''eu-west-1'')] (\<lambda>p. Missing)
           (\<lambda>p. Some [(''supabase_api_url'', ''https://api.example.test'')]))
        (Some ''/srv/app/.env''))) = Inr ''https://api.example.test''"
proof -
  let ?w1 = "sample_world [(''SUPABASE_REGION'', ''eu-west-1'')] (\<lambda>p. Missing)
               (\<lambda>p. Some [(''supabase_api_url'', ''https://api.example.test'')])"
  let ?w2 = "sample_world [(''QUERY_API_KEY'', ''k'')] (\<lambda>p. Missing)
               (\<lambda>p. Some [(''supabase_api_url'', ''https://api.example.test'')])"
  let ?cf = "Some ''/srv/app/.env''"
  let ?s1 = "\<lparr>supabase_project_ref = ''127.0.0.1:54322'',
              supabase_db_password = Some ''postgres'',
              supabase_region = ''eu-west-1'',
              supabase_access_token = None,
              supabase_service_role_key = None,
              supabase_api_url = ''https://api.example.test'',
              query_api_key = ''test-key'',
              query_api_url = ''https://api.thequery.dev/v1''\<rparr>"
  let ?s2 = "\<lparr>supabase_project_ref = ''127.0.0.1:54322'',
              supabase_db_password = Some ''postgres'',
              supabase_region = ''us-east-1'',
              supabase_access_token = None,
              supabase_service_role_key = None,
              supabase_api_url = ''https://api.example.test'',
              query_api_key = ''k'',
              query_api_url = ''https://api.thequery.dev/v1''\<rparr>"
  let ?lg = "[LogInfo ''Using settings from config file: /srv/app/.env'']"
  have r1: "with_config ?w1 ?cf = (Inr ?s1, ?lg)"
    by (simp add: sources_defs run_defs)
  have r2: "with_config ?w2 ?cf = (Inr ?s2, ?lg)"
    by (simp add: sources_defs run_defs)
  have h3: "dotenv_vars ?w1 ?cf = dotenv_vars ?w2 ?cf"
    by (simp add: sample_world_def dotenv_vars_def)
  have h4: "env_var ?w1 ''supabase_api_url'' = env_var ?w2 ''supabase_api_url''"
    by (simp add: sources_defs)
  from api_url_sources [OF r1 r2 h3 h4]
  have "supabase_api_url ?s1 = supabase_api_url ?s2" by blast
  then show ?thesis by (simp add: r1 r2)
qed

end
